theory Spec2Isabelle
  imports Main "HOL-Library.Sublist"
begin

section \<open>Python text\<close>

text \<open>
  A Python \<open>str\<close> is modelled as a \<open>string\<close>, each \<open>char\<close> standing for one code
  point below 256.  The character classes below are the ones the \<open>re\<close> module and
  \<open>str.strip\<close> use on that range.
\<close>

definition is_hex :: "char \<Rightarrow> bool" where
  \<comment> \<open>the class \<open>[0-9A-Fa-f]\<close>\<close>
  "is_hex c = (c \<in> set ''0123456789ABCDEFabcdef'')"

definition is_space :: "char \<Rightarrow> bool" where
  \<comment> \<open>\<open>\s\<close> and \<open>str.isspace\<close>: 9 to 13, 28 to 32, 133 and 160\<close>
  "is_space c = (c \<in> set [CHR 0x09, CHR 0x0A, CHR 0x0B, CHR 0x0C, CHR 0x0D,
                          CHR 0x1C, CHR 0x1D, CHR 0x1E, CHR 0x1F, CHR 0x20,
                          CHR 0x85, CHR 0xA0])"

definition join_lines :: "string list \<Rightarrow> string" where
  \<comment> \<open>\<open>'\n'.join(text)\<close>\<close>
  "join_lines ls = (case ls of [] \<Rightarrow> [] | l # rest \<Rightarrow> l @ concat (map (\<lambda>x. CHR 0x0A # x) rest))"

definition strip_nonempty :: "string \<Rightarrow> bool" where
  \<comment> \<open>the truth value of \<open>clean_line.strip()\<close>\<close>
  "strip_nonempty l = (\<not> list_all is_space l)"

subsection \<open>The two regular expressions\<close>

text \<open>
  \<open>match_ref s\<close> matches \<open>sub_[0-9A-Fa-f]+\<close> at the start of \<open>s\<close> and returns the
  matched text and the remainder.  The repetition is greedy and nothing of the pattern
  follows it, so the match takes the whole run of hexadecimal digits.
\<close>

fun match_ref :: "string \<Rightarrow> (string \<times> string) option" where
  "match_ref (c1 # c2 # c3 # c4 # t) =
     (if c1 = CHR ''s'' \<and> c2 = CHR ''u'' \<and> c3 = CHR ''b'' \<and> c4 = CHR ''_'' \<and> takeWhile is_hex t \<noteq> []
      then Some (''sub_'' @ takeWhile is_hex t, dropWhile is_hex t)
      else None)"
| "match_ref _ = None"

text \<open>\<open>findall(r'sub_[0-9A-Fa-f]+', s)\<close>: the non-overlapping matches, left to right.\<close>

function findall_sub :: "string \<Rightarrow> string list" where
  "findall_sub [] = []"
| "findall_sub (c # cs) =
     (case match_ref (c # cs) of
        Some (m, r) \<Rightarrow> m # findall_sub r
      | None \<Rightarrow> findall_sub cs)"
  by pat_completeness auto
termination
proof (relation "measure length")
  show "wf (measure length)" by simp
next
  fix c :: char and cs :: string and x2 x y
  assume "match_ref (c # cs) = Some x2" "(x, y) = x2"
  then have m: "match_ref (c # cs) = Some (x, y)" by simp
  have "length y < length (c # cs)"
  proof (cases "c # cs" rule: match_ref.cases)
    case (1 c1 c2 c3 c4 t)
    with m have "y = dropWhile is_hex t" by (simp split: if_splits)
    moreover have "length (dropWhile is_hex t) \<le> length t" by (rule length_dropWhile_le)
    ultimately show ?thesis using 1 by simp
  qed (use m in simp_all)
  then show "(y, c # cs) \<in> measure length" by simp
next
  fix c :: char and cs :: string
  show "(cs, c # cs) \<in> measure length" by simp
qed

text \<open>
  \<open>search(r'(sub_[0-9A-Fa-f]+)\s*\(', s)\<close> and its group 1: the leftmost position at
  which a reference, then any white space, then an opening parenthesis stand.  A shorter
  run of digits or of white space is followed by a digit or by white space, never by the
  parenthesis, so backtracking finds nothing the greedy match does not.
\<close>

fun search_main :: "string \<Rightarrow> string option" where
  "search_main [] = None"
| "search_main (c # cs) =
     (case match_ref (c # cs) of
        Some (m, r) \<Rightarrow>
          (case dropWhile is_space r of
             p # _ \<Rightarrow> if p = CHR ''('' then Some m else search_main cs
           | [] \<Rightarrow> search_main cs)
      | None \<Rightarrow> search_main cs)"

section \<open>The host\<close>

text \<open>
  An exception is an instance of Python's \<open>Exception\<close>; \<open>RuntimeError\<close> stands for that
  class and its subclasses, \<open>OtherException\<close> for every other one.  The argument is
  \<open>str(e)\<close>.
\<close>

datatype py_exception = RuntimeError string | OtherException string

fun str_of :: "py_exception \<Rightarrow> string" where
  "str_of (RuntimeError m) = m"
| "str_of (OtherException m) = m"

text \<open>
  The services of the disassembler that \<open>Action_Handler.py\<close> imports.  Each may raise;
  \<open>get_func\<close> and \<open>decompile\<close> may return \<open>None\<close>.  \<open>get_pseudocode\<close> gives the
  \<open>line\<close> field of every line of the decompiled function.  \<open>'f\<close> and \<open>'c\<close> are the
  host's function and decompilation objects.  An answer depends on the argument only;
  what \<open>print\<close> writes is left out.
\<close>

record ('f, 'c) host =
  BADADDR :: nat
  get_name_ea :: "string \<Rightarrow> py_exception + nat"
  get_func :: "nat \<Rightarrow> py_exception + 'f option"
  decompile :: "'f \<Rightarrow> py_exception + 'c option"
  get_pseudocode :: "'c \<Rightarrow> py_exception + string list"
  tag_remove :: "string \<Rightarrow> py_exception + string"

section \<open>\<open>ActionHandler\<close>\<close>

definition extract_sub_functions :: "string \<Rightarrow> string list" where
  \<comment> \<open>the matches whose set \<open>__extract_sub_functions\<close> returns\<close>
  "extract_sub_functions pseudocode = findall_sub pseudocode"

text \<open>The loop over the lines: blank lines are dropped, the first exception ends it.\<close>

fun clean_lines :: "('f, 'c) host \<Rightarrow> string list \<Rightarrow> py_exception + string list" where
  "clean_lines h [] = Inr []"
| "clean_lines h (sline # sv) =
     (case tag_remove h sline of
        Inl e \<Rightarrow> Inl e
      | Inr clean_line \<Rightarrow>
          (case clean_lines h sv of
             Inl e \<Rightarrow> Inl e
           | Inr text \<Rightarrow> Inr (if strip_nonempty clean_line then clean_line # text else text)))"

text \<open>The body of the \<open>try\<close> of \<open>__get_function_pseudocode\<close>.\<close>

definition try_function_pseudocode :: "('f, 'c) host \<Rightarrow> string \<Rightarrow> py_exception + string" where
  "try_function_pseudocode h func_name =
     (case get_name_ea h func_name of
        Inl e \<Rightarrow> Inl e
      | Inr func_addr \<Rightarrow>
          if func_addr = BADADDR h then Inr []
          else (case get_func h func_addr of
                  Inl e \<Rightarrow> Inl e
                | Inr None \<Rightarrow> Inr []
                | Inr (Some func) \<Rightarrow>
                    (case decompile h func of
                       Inl e \<Rightarrow> Inl e
                     | Inr None \<Rightarrow> Inr []
                     | Inr (Some cfunc) \<Rightarrow>
                         (case get_pseudocode h cfunc of
                            Inl e \<Rightarrow> Inl e
                          | Inr sv \<Rightarrow>
                              if sv \<noteq> [] then
                                (case clean_lines h sv of
                                   Inl e \<Rightarrow> Inl e
                                 | Inr text \<Rightarrow> Inr (join_lines text))
                              else Inr []))))"

text \<open>\<open>__get_function_pseudocode\<close>: \<open>except Exception\<close> turns every exception into \<open>""\<close>.\<close>

definition get_function_pseudocode :: "('f, 'c) host \<Rightarrow> string \<Rightarrow> py_exception + string" where
  "get_function_pseudocode h func_name =
     (case try_function_pseudocode h func_name of
        Inl e \<Rightarrow> Inr []
      | Inr code \<Rightarrow> Inr code)"

text \<open>
  The \<open>while\<close> loop of \<open>__get_all_related_pseudocode\<close>.  \<open>funcs_to_process\<close> is the
  list of the elements still in the set, in the order \<open>pop\<close> will hand them out; the loop
  adds nothing to it.  An exception of the call would leave the loop.
\<close>

fun process_funcs ::
  "('f, 'c) host \<Rightarrow> string list \<Rightarrow> string set \<Rightarrow> string \<Rightarrow> py_exception + string" where
  "process_funcs h [] collected_funcs result = Inr result"
| "process_funcs h (current_func # funcs_to_process) collected_funcs result =
     (if current_func \<in> collected_funcs
      then process_funcs h funcs_to_process collected_funcs result
      else (case get_function_pseudocode h current_func of
              Inl e \<Rightarrow> Inl e
            | Inr func_code \<Rightarrow>
                process_funcs h funcs_to_process (insert current_func collected_funcs)
                  (if func_code \<noteq> []
                   then result @ [CHR 0x0A, CHR 0x0A] @ ''// Function: '' @ current_func
                          @ [CHR 0x0A] @ func_code
                   else result)))"

text \<open>
  A Python set hands out its elements in an order the language leaves open.
  \<open>pop_order\<close> is that order: it turns the matches into the sequence in which
  \<open>funcs_to_process.pop()\<close> returns them.
\<close>

type_synonym pop_order = "string list \<Rightarrow> string list"

definition set_order :: "pop_order \<Rightarrow> bool" where
  \<comment> \<open>every element of the set once\<close>
  "set_order ord = (\<forall>xs. distinct (ord xs) \<and> set (ord xs) = set xs)"

definition initial_collected :: "string \<Rightarrow> string set" where
  \<comment> \<open>\<open>collected_funcs\<close> when the loop starts\<close>
  "initial_collected primary_pseudocode =
     (case search_main primary_pseudocode of
        Some main_func_name \<Rightarrow> (if main_func_name \<noteq> [] then {main_func_name} else {})
      | None \<Rightarrow> {})"

definition get_all_related_pseudocode ::
  "('f, 'c) host \<Rightarrow> pop_order \<Rightarrow> string \<Rightarrow> py_exception + string" where
  "get_all_related_pseudocode h ord primary_pseudocode =
     process_funcs h (ord (extract_sub_functions primary_pseudocode))
       (initial_collected primary_pseudocode) primary_pseudocode"

section \<open>What the loop does\<close>

text \<open>
  \<open>processed_funcs\<close> lists the values of \<open>current_func\<close> for which the loop goes past
  its \<open>continue\<close> and calls \<open>__get_function_pseudocode\<close>, in that order.
\<close>

fun processed_funcs :: "string list \<Rightarrow> string set \<Rightarrow> string list" where
  "processed_funcs [] collected_funcs = []"
| "processed_funcs (current_func # funcs_to_process) collected_funcs =
     (if current_func \<in> collected_funcs
      then processed_funcs funcs_to_process collected_funcs
      else current_func # processed_funcs funcs_to_process (insert current_func collected_funcs))"

text \<open>
  A helper section is a reference with the body the loop appends for it; \<open>section_text\<close>
  is the text of line 148, a separator comment naming the reference and then the body.
\<close>

definition section_text :: "string \<times> string \<Rightarrow> string" where
  "section_text s =
     [CHR 0x0A, CHR 0x0A] @ ''// Function: '' @ fst s @ [CHR 0x0A] @ snd s"

definition helper_section :: "('f, 'c) host \<Rightarrow> string \<Rightarrow> (string \<times> string) list" where
  \<comment> \<open>the section one pass of the loop appends for \<open>current_func\<close>, if any\<close>
  "helper_section h current_func =
     (case get_function_pseudocode h current_func of
        Inl e \<Rightarrow> []
      | Inr func_code \<Rightarrow> if func_code \<noteq> [] then [(current_func, func_code)] else [])"

definition helper_sections ::
  "('f, 'c) host \<Rightarrow> string list \<Rightarrow> string set \<Rightarrow> (string \<times> string) list" where
  "helper_sections h funcs_to_process collected_funcs =
     concat (map (helper_section h) (processed_funcs funcs_to_process collected_funcs))"

definition collect_processed :: "pop_order \<Rightarrow> string \<Rightarrow> string list" where
  "collect_processed ord primary_pseudocode =
     processed_funcs (ord (extract_sub_functions primary_pseudocode))
       (initial_collected primary_pseudocode)"

definition collect_sections :: "('f, 'c) host \<Rightarrow> pop_order \<Rightarrow> string \<Rightarrow> (string \<times> string) list" where
  "collect_sections h ord primary_pseudocode =
     concat (map (helper_section h) (collect_processed ord primary_pseudocode))"

text \<open>
  The ways a helper fails, in the order of the source: the lookup or a later call
  raises, the address is \<open>BADADDR\<close>, there is no function object, there is no
  decompilation.
\<close>

definition helper_fails :: "('f, 'c) host \<Rightarrow> string \<Rightarrow> bool" where
  "helper_fails h func_name =
     (case get_name_ea h func_name of
        Inl e \<Rightarrow> True
      | Inr func_addr \<Rightarrow>
          func_addr = BADADDR h \<or>
          (case get_func h func_addr of
             Inl e \<Rightarrow> True
           | Inr None \<Rightarrow> True
           | Inr (Some func) \<Rightarrow>
               (case decompile h func of
                  Inl e \<Rightarrow> True
                | Inr None \<Rightarrow> True
                | Inr (Some cfunc) \<Rightarrow>
                    (case get_pseudocode h cfunc of
                       Inl e \<Rightarrow> True
                     | Inr sv \<Rightarrow> (case clean_lines h sv of Inl e \<Rightarrow> True | Inr text \<Rightarrow> False)))))"

text \<open>
  The main reference as section 4.1 of the specification words it: the first reference
  immediately followed by an opening parenthesis, no white space between.  The source
  has \<open>search_main\<close> instead; the two are compared below.
\<close>

fun first_immediate_call :: "string \<Rightarrow> string option" where
  "first_immediate_call [] = None"
| "first_immediate_call (c # cs) =
     (case match_ref (c # cs) of
        Some (m, r) \<Rightarrow>
          (case r of
             p # _ \<Rightarrow> if p = CHR ''('' then Some m else first_immediate_call cs
           | [] \<Rightarrow> first_immediate_call cs)
      | None \<Rightarrow> first_immediate_call cs)"

text \<open>
  What it is for a text to hold a match of \<open>sub_[0-9A-Fa-f]+\<close>, said without the
  scanner: somewhere in it stands \<open>sub_\<close> and then a hexadecimal digit.
\<close>

definition contains_ref :: "string \<Rightarrow> bool" where
  "contains_ref s = (\<exists>pre d post. s = pre @ ''sub_'' @ d # post \<and> is_hex d)"

section \<open>\<open>AIHandler\<close>\<close>

text \<open>
  \<open>str.lower\<close> on code points below 256: the letters A to Z and the capital letters
  of Latin-1 (192 to 222 without 215) move up by 32.
\<close>

definition lower_char :: "char \<Rightarrow> char" where
  "lower_char c =
     (let n = of_char c :: nat
      in if (65 \<le> n \<and> n \<le> 90) \<or> (192 \<le> n \<and> n \<le> 222 \<and> n \<noteq> 215)
         then char_of (n + 32) else c)"

definition lower :: "string \<Rightarrow> string" where
  "lower s = map lower_char s"

definition startswith :: "string \<Rightarrow> string \<Rightarrow> bool" where
  \<comment> \<open>\<open>s.startswith(p)\<close>\<close>
  "startswith s p = (take (length p) s = p)"

text \<open>\<open>s.replace(old, new)\<close> for a non-empty \<open>old\<close>: every occurrence, left to right.\<close>

function str_replace :: "string \<Rightarrow> string \<Rightarrow> string \<Rightarrow> string" where
  "str_replace old new [] = []"
| "str_replace old new (c # cs) =
     (if old \<noteq> [] \<and> startswith (c # cs) old
      then new @ str_replace old new (drop (length old) (c # cs))
      else c # str_replace old new cs)"
  by pat_completeness auto
termination
  by (relation "measure (\<lambda>(old, new, s). length s)") auto

text \<open>
  A request to the service: the endpoint and the key of the client, the two messages
  and the keyword arguments of \<open>complete\<close>.  The service stands for
  building the client and calling \<open>complete\<close>: it answers with the
  \<open>message.content\<close> of every choice (a content may be \<open>None\<close>), or raises.  The log
  is the list of the requests that reached the service, oldest first.
\<close>

record chat_request =
  endpoint :: string
  credential :: string
  system_message :: string
  user_message :: string
  request_model :: string
  temperature :: nat
  max_tokens :: nat
  top_p :: nat

type_synonym service = "chat_request \<Rightarrow> py_exception + string option list"

text \<open>
  The handler holds the system prompt that \<open>__init__\<close> sets, a fixed text with the
  placeholder \<open>[language_combobox_value]\<close> in it.  Nothing below depends on its
  wording, so it is a field that can hold any text.
\<close>

record AIHandler =
  SYSTEM_PROMPT :: string

definition deepseek_request :: "string \<Rightarrow> string \<Rightarrow> string \<Rightarrow> string \<Rightarrow> string \<Rightarrow> chat_request" where
  "deepseek_request model system_prompt pseudocode api_key target_language =
     \<lparr> endpoint = ''https://models.inference.ai.azure.com'',
       credential = api_key,
       system_message = system_prompt,
       user_message =
         ''Translate this IDA Pro decompiled pseudocode to clean, modern ''
         @ target_language
         @ '' code. Return ONLY the translated code without any markdown formatting, ''
         @ ''explanations, or comments. Do NOT use code blocks with backticks. ''
         @ ''Just output the raw code directly:'' @ [CHR 0x0A, CHR 0x0A] @ pseudocode,
       request_model = model,
       temperature = 0,
       max_tokens = 2048,
       top_p = 1 \<rparr>"

text \<open>
  \<open>__process_deepseek\<close>: one call of the service.  \<open>choices[0]\<close> of an answer
  without choices raises \<open>IndexError\<close>.
\<close>

definition process_deepseek ::
  "service \<Rightarrow> chat_request list \<Rightarrow> string \<Rightarrow> string \<Rightarrow> string \<Rightarrow> string \<Rightarrow> string \<Rightarrow>
     (py_exception + string option) \<times> chat_request list" where
  "process_deepseek complete log model system_prompt pseudocode api_key target_language =
     (let request = deepseek_request model system_prompt pseudocode api_key target_language
      in case complete request of
           Inl e \<Rightarrow> (Inl e, log @ [request])
         | Inr choices \<Rightarrow>
             (case choices of
                [] \<Rightarrow> (Inl (OtherException ''list index out of range''), log @ [request])
              | first_choice # _ \<Rightarrow> (Inr first_choice, log @ [request])))"

text \<open>
  \<open>process_request\<close>.  The result \<open>Inr None\<close> is Python's \<open>None\<close>, returned when
  the function runs off its end; \<open>Inl\<close> would be an exception leaving the function.
\<close>

definition process_request ::
  "AIHandler \<Rightarrow> service \<Rightarrow> chat_request list \<Rightarrow> string \<Rightarrow> string \<Rightarrow> string \<Rightarrow> string \<Rightarrow>
     (py_exception + string option) \<times> chat_request list" where
  "process_request self complete log model_name pseudocode target_language api_key =
     (let system_prompt =
            str_replace ''[language_combobox_value]'' target_language (SYSTEM_PROMPT self)
      in if startswith (lower model_name) ''deepseek''
         then (case process_deepseek complete log model_name system_prompt pseudocode api_key
                      target_language of
                 (Inl e, log') \<Rightarrow> (Inr (Some (''Error processing request: '' @ str_of e)), log')
               | (Inr answer, log') \<Rightarrow> (Inr answer, log'))
         else (Inr None, log))"

section \<open>\<open>SummarizeWidget\<close>\<close>

text \<open>
  What the widget reads from the main widget: the results of
  \<open>model_combo.currentText()\<close>, \<open>lang_combo.currentText()\<close> and
  \<open>token_input.text()\<close>, each of which raises once the main widget was closed.
\<close>

record MainWidget =
  model_combo :: "py_exception + string"
  lang_combo :: "py_exception + string"
  token_input :: "py_exception + string"

text \<open>
  A worker thread holds the coroutine it was created with, that is the arguments of the
  pending call of \<open>process_request\<close>, and whether \<open>start\<close> was called.
\<close>

record coroutine =
  coro_model_name :: string
  coro_pseudocode :: string
  coro_target_language :: string
  coro_api_key :: string

record AsyncThread =
  coro :: coroutine
  started :: bool

text \<open>
  The fields of \<open>__init__\<close>.  \<open>responseTE\<close> is \<open>None\<close> until \<open>PopulateForm\<close>
  creates the text area, then the plain text it shows.
\<close>

record SummarizeWidget =
  stop_flag :: bool
  responseTE :: "string option"
  main_widget :: "MainWidget option"
  ai_handler :: AIHandler
  async_thread :: "AsyncThread option"

definition cleanup_thread :: "SummarizeWidget \<Rightarrow> SummarizeWidget" where
  \<comment> \<open>\<open>_cleanup_thread\<close>: quit, wait, forget\<close>
  "cleanup_thread self =
     (if async_thread self \<noteq> None then self\<lparr>async_thread := None\<rparr> else self)"

definition setPlainText :: "string \<Rightarrow> SummarizeWidget \<Rightarrow> SummarizeWidget" where
  "setPlainText t self = self\<lparr>responseTE := Some t\<rparr>"

text \<open>The three reads of lines 127 to 129, in order; the first exception wins.\<close>

definition read_config :: "MainWidget \<Rightarrow> py_exception + (string \<times> string \<times> string)" where
  "read_config mw =
     (case model_combo mw of
        Inl e \<Rightarrow> Inl e
      | Inr selected_model \<Rightarrow>
          (case lang_combo mw of
             Inl e \<Rightarrow> Inl e
           | Inr target_language \<Rightarrow>
               (case token_input mw of
                  Inl e \<Rightarrow> Inl e
                | Inr api_key \<Rightarrow> Inr (selected_model, target_language, api_key))))"

text \<open>The \<open>except\<close> clause of \<open>set_pseudocode\<close>.\<close>

fun on_exception :: "py_exception \<Rightarrow> SummarizeWidget \<Rightarrow> SummarizeWidget" where
  "on_exception (RuntimeError m) self =
     (setPlainText ''Plugin widget was closed. Press Alt + T to reopen it. Then try again'' self)
       \<lparr>main_widget := None\<rparr>"
| "on_exception (OtherException m) self = setPlainText (''Error: '' @ m) self"

definition set_pseudocode :: "SummarizeWidget \<Rightarrow> string \<Rightarrow> SummarizeWidget" where
  "set_pseudocode self code =
     (if responseTE self \<noteq> None then
        (let self1 = (if async_thread self \<noteq> None then cleanup_thread self else self)
         in case main_widget self1 of
              None \<Rightarrow>
                setPlainText
                  ''Plugin widget is not initialized. Press Alt + T first. Then try again'' self1
            | Some mw \<Rightarrow>
                (case read_config mw of
                   Inl e \<Rightarrow> on_exception e self1
                 | Inr (selected_model, target_language, api_key) \<Rightarrow>
                     if api_key = [] then setPlainText ''API key is required'' self1
                     else self1\<lparr>async_thread :=
                            Some \<lparr> coro = \<lparr> coro_model_name = selected_model,
                                            coro_pseudocode = code,
                                            coro_target_language = target_language,
                                            coro_api_key = api_key \<rparr>,
                                   started = True \<rparr>\<rparr>))
      else self)"

text \<open>
  \<open>AsyncThread.run\<close> runs the coroutine of the thread to its end, which is the one
  place where \<open>process_request\<close> is executed.  \<open>worker_requests\<close> is the log of the
  service after the worker thread of the widget, if it has one, has run.
\<close>

definition worker_requests :: "service \<Rightarrow> chat_request list \<Rightarrow> SummarizeWidget \<Rightarrow> chat_request list" where
  "worker_requests complete log self =
     (case async_thread self of
        None \<Rightarrow> log
      | Some thread \<Rightarrow>
          snd (process_request (ai_handler self) complete log
                 (coro_model_name (coro thread)) (coro_pseudocode (coro thread))
                 (coro_target_language (coro thread)) (coro_api_key (coro thread))))"

section \<open>Example inputs\<close>

text \<open>
  A host that knows \<open>sub_2000\<close> (two lines and a blank one) and \<open>sub_3000\<close> (whose
  body names \<open>sub_2000\<close> and \<open>sub_4000\<close>), raises on \<open>sub_BAD\<close> and finds nothing
  else.
\<close>

definition demo_host :: "(nat, nat) host" where
  "demo_host =
     \<lparr> BADADDR = 0,
       get_name_ea = (\<lambda>n. if n = ''sub_2000'' then Inr 2
                           else if n = ''sub_3000'' then Inr 3
                           else if n = ''sub_BAD'' then Inl (OtherException ''boom'')
                           else Inr 0),
       get_func = (\<lambda>a. Inr (Some a)),
       decompile = (\<lambda>f. Inr (Some f)),
       get_pseudocode = (\<lambda>c. if c = 2 then Inr [''int sub_2000() {'', ''  '', ''}'']
                              else Inr [''sub_3000() { sub_2000(); sub_4000(); }'']),
       tag_remove = (\<lambda>l. Inr l) \<rparr>"

definition demo_service :: service where
  "demo_service = (\<lambda>request. Inr [Some ''ok''])"

definition failing_service :: service where
  "failing_service = (\<lambda>request. Inl (OtherException ''401''))"

definition demo_handler :: AIHandler where
  "demo_handler = \<lparr> SYSTEM_PROMPT = ''to [language_combobox_value]'' \<rparr>"

definition demo_main_widget :: MainWidget where
  "demo_main_widget =
     \<lparr> model_combo = Inr ''DeepSeek-V3'', lang_combo = Inr ''C++'', token_input = Inr [] \<rparr>"

definition demo_widget :: SummarizeWidget where
  "demo_widget =
     \<lparr> stop_flag = False, responseTE = Some [], main_widget = Some demo_main_widget,
       ai_handler = demo_handler, async_thread = None \<rparr>"

definition fresh_widget :: SummarizeWidget where
  "fresh_widget =
     \<lparr> stop_flag = False, responseTE = None, main_widget = Some demo_main_widget,
       ai_handler = demo_handler, async_thread = None \<rparr>"

section \<open>Properties of the collector\<close>

lemma get_function_pseudocode_returns:
  "\<exists>code. get_function_pseudocode h func_name = Inr code"
  by (simp add: get_function_pseudocode_def split: sum.split)

lemma get_function_pseudocode_body:
  assumes "get_function_pseudocode h n = Inr code" and "code \<noteq> []"
  shows "try_function_pseudocode h n = Inr code"
  using assms by (auto simp: get_function_pseudocode_def split: sum.splits)

lemma helper_fails_empty_imp:
  "helper_fails h n \<longrightarrow> get_function_pseudocode h n = Inr []"
  unfolding helper_fails_def get_function_pseudocode_def try_function_pseudocode_def
  by (simp split: sum.split option.split) blast

lemma helper_fails_empty:
  assumes "helper_fails h n"
  shows "get_function_pseudocode h n = Inr []"
  using assms helper_fails_empty_imp by blast

lemma helper_section_fails: "helper_fails h n \<Longrightarrow> helper_section h n = []"
  by (simp add: helper_section_def helper_fails_empty)

lemma helper_section_fst: "s \<in> set (helper_section h n) \<Longrightarrow> fst s = n"
  by (auto simp: helper_section_def split: sum.splits if_splits)

lemma helper_section_body:
  "(r, b) \<in> set (helper_section h n) \<Longrightarrow> r = n \<and> b \<noteq> [] \<and> try_function_pseudocode h n = Inr b"
  by (auto simp: helper_section_def get_function_pseudocode_def split: sum.splits if_splits)

lemma helper_section_short: "length (helper_section h n) \<le> 1"
  by (simp add: helper_section_def split: sum.split)

lemma processed_funcs_subset:
  "set (processed_funcs fs c) = set fs - c"
  by (induction fs arbitrary: c) auto

lemma processed_funcs_distinct: "distinct (processed_funcs fs c)"
  by (induction fs arbitrary: c) (auto simp: processed_funcs_subset)

lemma process_funcs_sections:
  "process_funcs h fs c result =
     Inr (result @ concat (map section_text (helper_sections h fs c)))"
proof (induction fs arbitrary: c result)
  case Nil
  show ?case by (simp add: helper_sections_def)
next
  case (Cons f fs)
  obtain code where code: "get_function_pseudocode h f = Inr code"
    using get_function_pseudocode_returns by blast
  show ?case
  proof (cases "f \<in> c")
    case True
    with Cons.IH [of c result] show ?thesis by (simp add: helper_sections_def)
  next
    case False
    with code Cons.IH [of "insert f c"] show ?thesis
      by (simp add: helper_sections_def helper_section_def section_text_def)
  qed
qed

lemma collect_output:
  "get_all_related_pseudocode h ord p =
     Inr (p @ concat (map section_text (collect_sections h ord p)))"
  by (simp add: get_all_related_pseudocode_def collect_sections_def collect_processed_def
        process_funcs_sections helper_sections_def)

lemma collect_processed_distinct: "distinct (collect_processed ord p)"
  by (simp add: collect_processed_def processed_funcs_distinct)

lemma collect_sections_fst:
  "s \<in> set (collect_sections h ord p) \<Longrightarrow> fst s \<in> set (collect_processed ord p)"
  by (auto simp: collect_sections_def dest: helper_section_fst)

lemma sections_of_distinct:
  "distinct ns \<Longrightarrow> distinct (map fst (concat (map (helper_section h) ns)))"
proof (induction ns)
  case Nil
  show ?case by simp
next
  case (Cons n ns)
  have one: "distinct (map fst (helper_section h n))"
    by (simp add: helper_section_def split: sum.split)
  have apart: "fst ` set (helper_section h n) \<inter> fst ` set (concat (map (helper_section h) ns)) = {}"
    using Cons.prems by (auto dest!: helper_section_fst)
  from Cons one apart show ?case by simp
qed

lemma collect_sections_distinct: "distinct (map fst (collect_sections h ord p))"
  by (simp add: collect_sections_def sections_of_distinct collect_processed_distinct)

lemma no_s_match: "c \<noteq> CHR ''s'' \<Longrightarrow> match_ref (c # t) = None"
  by (cases "(c # t)" rule: match_ref.cases) auto

lemma search_skip: "\<forall>c\<in>set pre. c \<noteq> CHR ''s'' \<Longrightarrow> search_main (pre @ r) = search_main r"
  by (induction pre) (auto simp: no_s_match)

lemma is_hex_not_s: "is_hex c \<Longrightarrow> c \<noteq> CHR ''s''"
  by (auto simp: is_hex_def)

lemma match_ref_decomp:
  assumes "match_ref s = Some (m, r)"
  shows "\<exists>hs. hs \<noteq> [] \<and> (\<forall>c\<in>set hs. is_hex c) \<and> m = ''sub_'' @ hs \<and> s = m @ r"
proof (cases s rule: match_ref.cases)
  case (1 c1 c2 c3 c4 t)
  with assms have "takeWhile is_hex t \<noteq> []" "m = ''sub_'' @ takeWhile is_hex t"
    "r = dropWhile is_hex t" "s = ''sub_'' @ t"
    by (auto split: if_splits)
  moreover have "\<forall>c\<in>set (takeWhile is_hex t). is_hex c" by (auto dest: set_takeWhileD)
  ultimately show ?thesis by (intro exI [of _ "takeWhile is_hex t"]) simp
qed (use assms in simp_all)

lemma search_main_in_findall: "search_main p = Some m \<Longrightarrow> m \<in> set (findall_sub p)"
proof (induction p rule: findall_sub.induct)
  case 1
  then show ?case by simp
next
  case (2 c cs)
  show ?case
  proof (cases "match_ref (c # cs)")
    case None
    with 2 show ?thesis by simp
  next
    case (Some mr)
    obtain m' r where mr: "mr = (m', r)" by (cases mr)
    from Some mr obtain hs where hs: "\<forall>c\<in>set hs. is_hex c" "m' = ''sub_'' @ hs" "c # cs = m' @ r"
      using match_ref_decomp by blast
    then have cs: "cs = (''ub_'' @ hs) @ r" by simp
    have "\<forall>c\<in>set (''ub_'' @ hs). c \<noteq> CHR ''s''" using hs(1) by (auto dest: is_hex_not_s)
    then have skip: "search_main cs = search_main r" unfolding cs by (rule search_skip)
    show ?thesis
    proof (cases "m = m'")
      case True
      with Some mr show ?thesis by simp
    next
      case False
      with "2.prems" Some mr have "search_main cs = Some m"
        by (auto split: list.splits if_splits)
      with skip have "search_main r = Some m" by simp
      with "2.IH"(2) [OF Some mr [symmetric]] Some mr show ?thesis by simp
    qed
  qed
qed

lemma set_order_subset: "set_order ord \<Longrightarrow> set (ord xs) = set xs"
  by (simp add: set_order_def)

lemma collect_processed_set:
  "set_order ord \<Longrightarrow>
   set (collect_processed ord p) = set (extract_sub_functions p) - initial_collected p"
  by (simp add: collect_processed_def processed_funcs_subset set_order_subset)

lemma collect_sections_member:
  "(r, b) \<in> set (collect_sections h ord p) \<longleftrightarrow>
     r \<in> set (collect_processed ord p) \<and> get_function_pseudocode h r = Inr b \<and> b \<noteq> []"
  by (auto simp: collect_sections_def helper_section_def split: sum.splits if_splits)

lemma search_main_nonempty: "search_main p = Some m \<Longrightarrow> m \<noteq> []"
proof (induction p)
  case Nil
  then show ?case by simp
next
  case (Cons c cs)
  show ?case
  proof (cases "search_main cs = Some m")
    case True
    with Cons.IH show ?thesis by simp
  next
    case False
    with Cons.prems obtain r where "match_ref (c # cs) = Some (m, r)"
      by (auto split: option.splits list.splits if_splits)
    then show ?thesis using match_ref_decomp by fastforce
  qed
qed

lemma initial_collected_main: "search_main p = Some m \<Longrightarrow> initial_collected p = {m}"
  by (simp add: initial_collected_def search_main_nonempty)

lemma match_ref_iff:
  "match_ref s \<noteq> None \<longleftrightarrow> (\<exists>d t. s = ''sub_'' @ d # t \<and> is_hex d)"
proof (cases s rule: match_ref.cases)
  case (1 c1 c2 c3 c4 t)
  have "takeWhile is_hex t \<noteq> [] \<longleftrightarrow> (\<exists>d t'. t = d # t' \<and> is_hex d)"
    by (cases t) auto
  with 1 show ?thesis by auto
qed auto

text \<open>
  \<open>findall\<close> finds nothing exactly when no part of the text is \<open>sub_\<close> with a
  hexadecimal digit behind it.
\<close>

lemma findall_sub_Nil_iff: "findall_sub p = [] \<longleftrightarrow> \<not> contains_ref p"
proof (induction p rule: findall_sub.induct)
  case 1
  show ?case by (simp add: contains_ref_def)
next
  case (2 c cs)
  show ?case
  proof (cases "match_ref (c # cs)")
    case None
    then have nohead: "\<not> (\<exists>d t. c # cs = ''sub_'' @ d # t \<and> is_hex d)"
      using match_ref_iff [of "c # cs"] by simp
    have "contains_ref (c # cs) \<longleftrightarrow> contains_ref cs"
    proof
      assume "contains_ref (c # cs)"
      then obtain pre d post where e: "c # cs = pre @ ''sub_'' @ d # post" "is_hex d"
        unfolding contains_ref_def by blast
      show "contains_ref cs"
      proof (cases pre)
        case Nil
        with e nohead show ?thesis by auto
      next
        case (Cons a pre')
        with e have "cs = pre' @ ''sub_'' @ d # post" by simp
        with e(2) show ?thesis unfolding contains_ref_def by blast
      qed
    next
      assume "contains_ref cs"
      then obtain pre d post where e: "cs = pre @ ''sub_'' @ d # post" "is_hex d"
        unfolding contains_ref_def by blast
      then have "c # cs = (c # pre) @ ''sub_'' @ d # post" by simp
      with e(2) show "contains_ref (c # cs)" unfolding contains_ref_def by blast
    qed
    with None "2.IH"(1) show ?thesis by simp
  next
    case (Some mr)
    then obtain d t where "c # cs = [] @ ''sub_'' @ d # t" "is_hex d"
      using match_ref_iff [of "c # cs"] by auto
    then have "contains_ref (c # cs)" unfolding contains_ref_def by blast
    with Some show ?thesis by (auto split: prod.splits)
  qed
qed

subsection \<open>Failed helpers\<close>

text \<open>
  C1.  Whatever the host answers, \<open>__get_all_related_pseudocode\<close> returns a text
  and raises nothing: the primary text followed by the helper sections.  Every section
  belongs to a reference of the primary text whose resolution gave a non-empty body, and
  that body is the one appended.  A reference whose lookup gives \<open>BADADDR\<close>, that has
  no function object, whose decompilation fails or on which the host raises has no
  section; when every reference fails so, the result is the primary text.
\<close>

theorem collect_skips_failed_helpers:
  "set_order ord \<Longrightarrow>
     get_all_related_pseudocode h ord p
       = Inr (p @ concat (map section_text (collect_sections h ord p))) \<and>
     (\<forall>s \<in> set (collect_sections h ord p).
        fst s \<in> set (extract_sub_functions p) \<and> snd s \<noteq> [] \<and>
        try_function_pseudocode h (fst s) = Inr (snd s)) \<and>
     (\<forall>r. helper_fails h r \<longrightarrow> r \<notin> fst ` set (collect_sections h ord p)) \<and>
     ((\<forall>r \<in> set (extract_sub_functions p). helper_fails h r) \<longrightarrow>
        get_all_related_pseudocode h ord p = Inr p)"
proof (intro conjI)
  assume ord: "set_order ord"
  show out: "get_all_related_pseudocode h ord p
       = Inr (p @ concat (map section_text (collect_sections h ord p)))"
    by (rule collect_output)
  show "\<forall>s \<in> set (collect_sections h ord p).
        fst s \<in> set (extract_sub_functions p) \<and> snd s \<noteq> [] \<and>
        try_function_pseudocode h (fst s) = Inr (snd s)"
  proof
    fix s assume "s \<in> set (collect_sections h ord p)"
    then have m: "fst s \<in> set (collect_processed ord p)"
      and b: "get_function_pseudocode h (fst s) = Inr (snd s)" "snd s \<noteq> []"
      using collect_sections_member [of "fst s" "snd s" h ord p] by simp_all
    from m ord have "fst s \<in> set (extract_sub_functions p)"
      by (simp add: collect_processed_set)
    with b show "fst s \<in> set (extract_sub_functions p) \<and> snd s \<noteq> [] \<and>
        try_function_pseudocode h (fst s) = Inr (snd s)"
      by (simp add: get_function_pseudocode_body)
  qed
  show fails: "\<forall>r. helper_fails h r \<longrightarrow> r \<notin> fst ` set (collect_sections h ord p)"
  proof (intro allI impI notI)
    fix r assume f: "helper_fails h r" and "r \<in> fst ` set (collect_sections h ord p)"
    then obtain b where "(r, b) \<in> set (collect_sections h ord p)" by auto
    then have "get_function_pseudocode h r = Inr b" "b \<noteq> []"
      by (simp_all add: collect_sections_member)
    with helper_fails_empty [OF f] show False by simp
  qed
  show "(\<forall>r \<in> set (extract_sub_functions p). helper_fails h r) \<longrightarrow>
        get_all_related_pseudocode h ord p = Inr p"
  proof
    assume all: "\<forall>r \<in> set (extract_sub_functions p). helper_fails h r"
    have "collect_sections h ord p = []"
    proof (rule ccontr)
      assume "collect_sections h ord p \<noteq> []"
      then obtain s where s: "s \<in> set (collect_sections h ord p)" by (cases "collect_sections h ord p") auto
      then have "fst s \<in> set (collect_processed ord p)" by (rule collect_sections_fst)
      with ord have "fst s \<in> set (extract_sub_functions p)" by (simp add: collect_processed_set)
      with all have "helper_fails h (fst s)" by blast
      with fails s show False by blast
    qed
    with out show "get_all_related_pseudocode h ord p = Inr p" by simp
  qed
qed

theorem collect_skips_failed_helpers_witness:
  "set_order remdups \<and>
   extract_sub_functions ''v = sub_BAD + sub_77;'' = [''sub_BAD'', ''sub_77''] \<and>
   helper_fails demo_host ''sub_BAD'' \<and> helper_fails demo_host ''sub_77'' \<and>
   get_all_related_pseudocode demo_host remdups ''v = sub_BAD + sub_77;''
     = Inr ''v = sub_BAD + sub_77;''"
proof -
  have o: "set_order remdups" by (simp add: set_order_def)
  have e: "extract_sub_functions ''v = sub_BAD + sub_77;'' = [''sub_BAD'', ''sub_77'']"
    by (simp add: extract_sub_functions_def is_hex_def)
  have f: "helper_fails demo_host ''sub_BAD''" "helper_fails demo_host ''sub_77''"
    by (simp_all add: helper_fails_def demo_host_def)
  from collect_skips_failed_helpers [OF o, of demo_host "''v = sub_BAD + sub_77;''"]
  have "(\<forall>r \<in> set (extract_sub_functions ''v = sub_BAD + sub_77;''). helper_fails demo_host r) \<longrightarrow>
        get_all_related_pseudocode demo_host remdups ''v = sub_BAD + sub_77;''
          = Inr ''v = sub_BAD + sub_77;''"
    by blast
  with e f have "get_all_related_pseudocode demo_host remdups ''v = sub_BAD + sub_77;''
          = Inr ''v = sub_BAD + sub_77;''"
    by simp
  with o e f show ?thesis by blast
qed

subsection \<open>One section for a reference\<close>

text \<open>
  C2.  The result is the primary text followed by the helper sections, and no two of the
  sections belong to the same reference: a reference has at most one section, however
  often it occurs in the primary text and in whatever order the set hands its elements out.
\<close>

theorem one_section_per_reference:
  "get_all_related_pseudocode h ord p
     = Inr (p @ concat (map section_text (collect_sections h ord p))) \<and>
   distinct (map fst (collect_sections h ord p)) \<and>
   length (filter (\<lambda>s. fst s = r) (collect_sections h ord p)) \<le> 1"
proof -
  have d: "distinct (map fst (collect_sections h ord p))" by (rule collect_sections_distinct)
  have "length (filter (\<lambda>s. fst s = r) xs) \<le> 1" if "distinct (map fst xs)" for xs :: "(string \<times> string) list"
    using that by (induction xs) (auto simp: filter_empty_conv rev_image_eqI)
  with d collect_output [of h ord p] show ?thesis by blast
qed

theorem one_section_per_reference_witness:
  "get_all_related_pseudocode demo_host remdups
     ''sub_1000(a,b); sub_2000(x); sub_1000(a,b); sub_2000(x); sub_3000''
   = Inr (''sub_1000(a,b); sub_2000(x); sub_1000(a,b); sub_2000(x); sub_3000''
          @ section_text (''sub_2000'', ''int sub_2000() {'' @ [CHR 0x0A] @ ''}'')
          @ section_text (''sub_3000'', ''sub_3000() { sub_2000(); sub_4000(); }'')) \<and>
   map fst (collect_sections demo_host remdups
     ''sub_1000(a,b); sub_2000(x); sub_1000(a,b); sub_2000(x); sub_3000'')
   = [''sub_2000'', ''sub_3000'']"
proof -
  have s: "collect_sections demo_host remdups
     ''sub_1000(a,b); sub_2000(x); sub_1000(a,b); sub_2000(x); sub_3000''
     = [(''sub_2000'', ''int sub_2000() {'' @ [CHR 0x0A] @ ''}''),
        (''sub_3000'', ''sub_3000() { sub_2000(); sub_4000(); }'')]"
    by (simp add: collect_sections_def collect_processed_def extract_sub_functions_def
          initial_collected_def is_hex_def is_space_def helper_section_def
          get_function_pseudocode_def try_function_pseudocode_def demo_host_def
          join_lines_def strip_nonempty_def)
  from one_section_per_reference [of demo_host remdups
     "''sub_1000(a,b); sub_2000(x); sub_1000(a,b); sub_2000(x); sub_3000''" "''sub_2000''"] s
  show ?thesis by simp
qed

subsection \<open>No reference\<close>

text \<open>
  C3.  A primary text in which the pattern matches nowhere comes back unchanged, no
  section appended: said with the matches \<open>findall\<close> returns, and said with the text
  itself, which nowhere holds \<open>sub_\<close> and a hexadecimal digit.  The empty text comes
  back empty.
\<close>

theorem collect_without_references:
  "set_order ord \<Longrightarrow>
     (extract_sub_functions p = [] \<longrightarrow> get_all_related_pseudocode h ord p = Inr p) \<and>
     (\<not> contains_ref p \<longrightarrow> get_all_related_pseudocode h ord p = Inr p) \<and>
     get_all_related_pseudocode h ord [] = Inr []"
proof -
  assume ord: "set_order ord"
  have none: "get_all_related_pseudocode h ord q = Inr q" if "extract_sub_functions q = []" for q
  proof -
    from ord that have "set (ord (extract_sub_functions q)) = {}"
      by (simp add: set_order_subset)
    then have "ord (extract_sub_functions q) = []" by simp
    then show ?thesis by (simp add: get_all_related_pseudocode_def)
  qed
  have "extract_sub_functions p = []" if "\<not> contains_ref p"
    using that by (simp add: extract_sub_functions_def findall_sub_Nil_iff)
  moreover have "extract_sub_functions [] = []" by (simp add: extract_sub_functions_def)
  ultimately show ?thesis using none by blast
qed

theorem collect_without_references_witness:
  "set_order remdups \<and> extract_sub_functions ''return sub_ + substr(x);'' = [] \<and>
   get_all_related_pseudocode demo_host remdups ''return sub_ + substr(x);''
     = Inr ''return sub_ + substr(x);'' \<and>
   get_all_related_pseudocode demo_host remdups [] = Inr []"
proof -
  have o: "set_order remdups" by (simp add: set_order_def)
  have e: "extract_sub_functions ''return sub_ + substr(x);'' = []"
    by (simp add: extract_sub_functions_def is_hex_def)
  from collect_without_references [OF o, of "''return sub_ + substr(x);''" demo_host] e o
  show ?thesis by blast
qed

subsection \<open>The main reference\<close>

text \<open>
  C4, as the code has it.  The main reference is the first reference that is followed,
  after any white space, by an opening parenthesis.  It is one of the references
  found, it is in \<open>collected_funcs\<close> before the loop starts, the loop never resolves it
  and it has no section.
\<close>

theorem main_reference_never_helper:
  "search_main p = Some m \<Longrightarrow>
     m \<in> set (extract_sub_functions p) \<and> m \<in> initial_collected p \<and>
     m \<notin> set (collect_processed ord p) \<and> m \<notin> fst ` set (collect_sections h ord p)"
proof -
  assume main: "search_main p = Some m"
  then have found: "m \<in> set (extract_sub_functions p)"
    by (simp add: extract_sub_functions_def search_main_in_findall)
  from main have ini: "m \<in> initial_collected p" by (simp add: initial_collected_main)
  then have np: "m \<notin> set (collect_processed ord p)"
    by (simp add: collect_processed_def processed_funcs_subset)
  then have "m \<notin> fst ` set (collect_sections h ord p)"
    using collect_sections_fst by blast
  with found ini np show ?thesis by blast
qed

theorem main_reference_never_helper_witness:
  "search_main ''sub_2000 (x) { sub_3000(x); }'' = Some ''sub_2000'' \<and>
   ''sub_2000'' \<in> set (extract_sub_functions ''sub_2000 (x) { sub_3000(x); }'') \<and>
   ''sub_2000'' \<notin> fst ` set (collect_sections demo_host remdups ''sub_2000 (x) { sub_3000(x); }'')"
proof -
  have m: "search_main ''sub_2000 (x) { sub_3000(x); }'' = Some ''sub_2000''"
    by (simp add: is_hex_def is_space_def)
  from main_reference_never_helper [OF m, of remdups demo_host] m show ?thesis by blast
qed

text \<open>
  The claim as written takes the first reference with the parenthesis right behind it.
  In \<open>sub_1000 (x); sub_2000(y);\<close> that is \<open>sub_2000\<close>, but the code takes
  \<open>sub_1000\<close> for the main reference, and \<open>sub_2000\<close> gets a section.
\<close>

theorem main_reference_counterexample:
  "first_immediate_call ''sub_1000 (x); sub_2000(y);'' = Some ''sub_2000'' \<and>
   search_main ''sub_1000 (x); sub_2000(y);'' = Some ''sub_1000'' \<and>
   get_all_related_pseudocode demo_host remdups ''sub_1000 (x); sub_2000(y);''
     = Inr (''sub_1000 (x); sub_2000(y);'' @ [CHR 0x0A, CHR 0x0A] @ ''// Function: sub_2000''
            @ [CHR 0x0A] @ ''int sub_2000() {'' @ [CHR 0x0A] @ ''}'')"
  by (simp add: get_all_related_pseudocode_def extract_sub_functions_def
        initial_collected_def is_hex_def is_space_def
        get_function_pseudocode_def try_function_pseudocode_def demo_host_def
        join_lines_def strip_nonempty_def)

subsection \<open>The shape of the result\<close>

text \<open>
  C5.  The result starts with the primary text, and what follows is the helper sections
  one after the other, each of them two line feeds, the comment \<open>// Function: \<close> with
  the reference of the helper, a line feed and the body.
\<close>

theorem collect_primary_first:
  "\<exists>out. get_all_related_pseudocode h ord p = Inr out \<and> prefix p out \<and>
     out = p @ concat (map (\<lambda>s. [CHR 0x0A, CHR 0x0A] @ ''// Function: '' @ fst s
                                  @ [CHR 0x0A] @ snd s) (collect_sections h ord p))"
proof -
  have "section_text = (\<lambda>s. [CHR 0x0A, CHR 0x0A] @ ''// Function: '' @ fst s @ [CHR 0x0A] @ snd s)"
    by (rule ext) (simp add: section_text_def)
  with collect_output [of h ord p] show ?thesis by simp
qed

theorem collect_primary_first_witness:
  "get_all_related_pseudocode demo_host remdups ''v = sub_3000;''
     = Inr (''v = sub_3000;'' @ [CHR 0x0A, CHR 0x0A] @ ''// Function: sub_3000''
            @ [CHR 0x0A] @ ''sub_3000() { sub_2000(); sub_4000(); }'') \<and>
   prefix ''v = sub_3000;'' (''v = sub_3000;'' @ [CHR 0x0A, CHR 0x0A] @ ''// Function: sub_3000''
            @ [CHR 0x0A] @ ''sub_3000() { sub_2000(); sub_4000(); }'')"
proof -
  have s: "collect_sections demo_host remdups ''v = sub_3000;''
     = [(''sub_3000'', ''sub_3000() { sub_2000(); sub_4000(); }'')]"
    by (simp add: collect_sections_def collect_processed_def extract_sub_functions_def
          initial_collected_def is_hex_def is_space_def helper_section_def
          get_function_pseudocode_def try_function_pseudocode_def demo_host_def
          join_lines_def strip_nonempty_def)
  from collect_primary_first [of demo_host remdups "''v = sub_3000;''"] s
  show ?thesis by auto
qed

subsection \<open>One level only\<close>

text \<open>
  C6.  The loop ends and returns a text.  The references it resolves are distinct
  references of the primary text, so there are no more passes that resolve a helper than
  the primary text has distinct references; which references they are does not depend
  on the host, because no body is scanned.  A reference that is not in the primary text,
  also when a helper body names it, has no section.
\<close>

theorem collect_terminates_one_level:
  "set_order ord \<Longrightarrow>
     (\<exists>out. get_all_related_pseudocode h ord p = Inr out) \<and>
     distinct (collect_processed ord p) \<and>
     set (collect_processed ord p) \<subseteq> set (extract_sub_functions p) \<and>
     length (collect_processed ord p) \<le> card (set (extract_sub_functions p)) \<and>
     (\<forall>r. r \<notin> set (extract_sub_functions p) \<longrightarrow>
        r \<notin> fst ` set (collect_sections h ord p))"
proof -
  assume ord: "set_order ord"
  have d: "distinct (collect_processed ord p)" by (rule collect_processed_distinct)
  from ord have sub: "set (collect_processed ord p) \<subseteq> set (extract_sub_functions p)"
    by (auto simp: collect_processed_set)
  from d have "length (collect_processed ord p) = card (set (collect_processed ord p))"
    by (simp add: distinct_card)
  also from sub have "\<dots> \<le> card (set (extract_sub_functions p))"
    by (simp add: card_mono)
  finally have len: "length (collect_processed ord p) \<le> card (set (extract_sub_functions p))" .
  have "r \<notin> fst ` set (collect_sections h ord p)" if "r \<notin> set (extract_sub_functions p)" for r
    using that sub collect_sections_fst by blast
  with collect_output [of h ord p] d sub len show ?thesis by blast
qed

theorem collect_terminates_one_level_witness:
  "set_order remdups \<and>
   get_all_related_pseudocode demo_host remdups ''v = sub_3000 + sub_3000;''
     = Inr (''v = sub_3000 + sub_3000;'' @ [CHR 0x0A, CHR 0x0A] @ ''// Function: sub_3000''
            @ [CHR 0x0A] @ ''sub_3000() { sub_2000(); sub_4000(); }'') \<and>
   collect_processed remdups ''v = sub_3000 + sub_3000;'' = [''sub_3000''] \<and>
   ''sub_2000'' \<notin> fst ` set (collect_sections demo_host remdups ''v = sub_3000 + sub_3000;'')"
proof -
  have o: "set_order remdups" by (simp add: set_order_def)
  have e: "extract_sub_functions ''v = sub_3000 + sub_3000;'' = [''sub_3000'', ''sub_3000'']"
    by (simp add: extract_sub_functions_def is_hex_def)
  have c: "collect_processed remdups ''v = sub_3000 + sub_3000;'' = [''sub_3000'']"
    by (simp add: collect_processed_def e initial_collected_def is_hex_def is_space_def)
  have g: "get_all_related_pseudocode demo_host remdups ''v = sub_3000 + sub_3000;''
     = Inr (''v = sub_3000 + sub_3000;'' @ [CHR 0x0A, CHR 0x0A] @ ''// Function: sub_3000''
            @ [CHR 0x0A] @ ''sub_3000() { sub_2000(); sub_4000(); }'')"
    by (simp add: get_all_related_pseudocode_def e initial_collected_def is_hex_def is_space_def
          get_function_pseudocode_def try_function_pseudocode_def demo_host_def
          join_lines_def strip_nonempty_def)
  from collect_terminates_one_level [OF o, of demo_host "''v = sub_3000 + sub_3000;''"] e
  have "''sub_2000'' \<notin> fst ` set (collect_sections demo_host remdups ''v = sub_3000 + sub_3000;'')"
    by simp
  with o c g show ?thesis by blast
qed

section \<open>Properties of the dispatcher\<close>

lemma process_deepseek_log:
  "snd (process_deepseek complete log model system_prompt pseudocode api_key target_language)
     = log @ [deepseek_request model system_prompt pseudocode api_key target_language]"
  by (simp add: process_deepseek_def Let_def split: sum.split list.split)

text \<open>
  C7.  \<open>process_request\<close> returns and never raises.  When the model is of the
  DeepSeek family and the service raises, or answers without a choice, the result is
  the text \<open>Error processing request: \<close> followed by the message of the exception.
\<close>

theorem process_request_never_raises:
  "(\<exists>answer. fst (process_request self complete log model_name pseudocode target_language api_key)
       = Inr answer) \<and>
   (startswith (lower model_name) ''deepseek'' \<longrightarrow>
      (\<forall>e. complete (deepseek_request model_name
                (str_replace ''[language_combobox_value]'' target_language (SYSTEM_PROMPT self))
                pseudocode api_key target_language) = Inl e \<longrightarrow>
           fst (process_request self complete log model_name pseudocode target_language api_key)
             = Inr (Some (''Error processing request: '' @ str_of e))) \<and>
      (complete (deepseek_request model_name
                (str_replace ''[language_combobox_value]'' target_language (SYSTEM_PROMPT self))
                pseudocode api_key target_language) = Inr [] \<longrightarrow>
           fst (process_request self complete log model_name pseudocode target_language api_key)
             = Inr (Some ''Error processing request: list index out of range'')))"
  by (auto simp: process_request_def process_deepseek_def Let_def
           split: sum.splits list.splits prod.splits)

theorem process_request_never_raises_witness:
  "startswith (lower ''DeepSeek-V3'') ''deepseek'' \<and>
   failing_service (deepseek_request ''DeepSeek-V3''
       (str_replace ''[language_combobox_value]'' ''C++'' (SYSTEM_PROMPT demo_handler))
       ''x'' ''key'' ''C++'') = Inl (OtherException ''401'') \<and>
   fst (process_request demo_handler failing_service [] ''DeepSeek-V3'' ''x'' ''C++'' ''key'')
     = Inr (Some ''Error processing request: 401'')"
proof -
  have d: "startswith (lower ''DeepSeek-V3'') ''deepseek''"
    by code_simp
  have f: "failing_service (deepseek_request ''DeepSeek-V3''
       (str_replace ''[language_combobox_value]'' ''C++'' (SYSTEM_PROMPT demo_handler))
       ''x'' ''key'' ''C++'') = Inl (OtherException ''401'')"
    by (simp add: failing_service_def)
  from process_request_never_raises
         [of demo_handler failing_service "[]" "''DeepSeek-V3''" "''x''" "''C++''" "''key''"] d f
  have "fst (process_request demo_handler failing_service [] ''DeepSeek-V3'' ''x'' ''C++'' ''key'')
     = Inr (Some (''Error processing request: '' @ str_of (OtherException ''401'')))"
    by blast
  with d f show ?thesis by simp
qed

text \<open>
  C9.  For a model name that does not start with \<open>deepseek\<close>, whatever the case of its
  letters, \<open>process_request\<close> returns \<open>None\<close> and sends nothing to the service.
\<close>

theorem unrecognized_model_no_content:
  "\<not> startswith (lower model_name) ''deepseek'' \<Longrightarrow>
     process_request self complete log model_name pseudocode target_language api_key
       = (Inr None, log)"
  by (simp add: process_request_def)

theorem unrecognized_model_no_content_witness:
  "\<not> startswith (lower ''gpt-4o'') ''deepseek'' \<and>
   process_request demo_handler demo_service [] ''gpt-4o'' ''x'' ''C++'' ''key'' = (Inr None, [])"
proof -
  have n: "\<not> startswith (lower ''gpt-4o'') ''deepseek''"
    by code_simp
  from unrecognized_model_no_content [OF n, of demo_handler demo_service "[]" "''x''" "''C++''" "''key''"] n
  show ?thesis by simp
qed

section \<open>Properties of the widget\<close>

text \<open>
  C8, as the code has it.  The check of the key is in \<open>set_pseudocode\<close>: when the text
  area exists, the main widget is there and its three fields can be read, an empty key
  makes the widget show \<open>API key is required\<close> and leaves it without a worker thread.
  No coroutine of \<open>process_request\<close> exists then, and nothing reaches the service.
\<close>

theorem empty_api_key_starts_no_worker:
  "responseTE self \<noteq> None \<Longrightarrow> main_widget self = Some mw \<Longrightarrow>
   model_combo mw = Inr selected_model \<Longrightarrow> lang_combo mw = Inr target_language \<Longrightarrow>
   token_input mw = Inr [] \<Longrightarrow>
     set_pseudocode self code
       = self\<lparr>responseTE := Some ''API key is required'', async_thread := None\<rparr> \<and>
     worker_requests complete log (set_pseudocode self code) = log"
  by (simp add: set_pseudocode_def cleanup_thread_def read_config_def setPlainText_def
        worker_requests_def)

theorem empty_api_key_starts_no_worker_witness:
  "responseTE demo_widget \<noteq> None \<and> main_widget demo_widget = Some demo_main_widget \<and>
   model_combo demo_main_widget = Inr ''DeepSeek-V3'' \<and> lang_combo demo_main_widget = Inr ''C++'' \<and>
   token_input demo_main_widget = Inr [] \<and>
   responseTE (set_pseudocode demo_widget ''x'') = Some ''API key is required'' \<and>
   async_thread (set_pseudocode demo_widget ''x'') = None \<and>
   worker_requests demo_service [] (set_pseudocode demo_widget ''x'') = []"
proof -
  have h: "responseTE demo_widget \<noteq> None" "main_widget demo_widget = Some demo_main_widget"
    "model_combo demo_main_widget = Inr ''DeepSeek-V3''" "lang_combo demo_main_widget = Inr ''C++''"
    "token_input demo_main_widget = Inr []"
    by (simp_all add: demo_widget_def demo_main_widget_def)
  from empty_api_key_starts_no_worker [OF h, of "''x''" demo_service "[]"]
  have eq: "set_pseudocode demo_widget ''x''
              = demo_widget\<lparr>responseTE := Some ''API key is required'', async_thread := None\<rparr>"
    and wr: "worker_requests demo_service [] (set_pseudocode demo_widget ''x'') = []"
    by blast+
  from eq have "responseTE (set_pseudocode demo_widget ''x'') = Some ''API key is required''"
    and "async_thread (set_pseudocode demo_widget ''x'') = None"
    by simp_all
  with h wr show ?thesis by blast
qed

text \<open>
  The claim as written is about \<open>process_request\<close>, which does not look at the key:
  with an empty key and a DeepSeek model it sends the request and returns the answer.
\<close>

theorem empty_api_key_counterexample:
  "process_request demo_handler demo_service [] ''DeepSeek-V3'' ''x'' ''C++'' []
     = (Inr (Some ''ok''),
        [deepseek_request ''DeepSeek-V3'' ''to C++'' ''x'' [] ''C++''])"
proof -
  have d: "startswith (lower ''DeepSeek-V3'') ''deepseek''" by code_simp
  have r: "str_replace ''[language_combobox_value]'' ''C++'' ''to [language_combobox_value]''
             = ''to C++''"
    by (simp add: startswith_def)
  show ?thesis
    unfolding process_request_def process_deepseek_def demo_service_def demo_handler_def
    by (simp only: d r AIHandler.simps Let_def if_True sum.case list.case prod.case append_Nil)
qed

text \<open>
  C10.  As long as the text area does not exist, \<open>set_pseudocode\<close> changes nothing:
  no message, no worker thread, every field as it was.
\<close>

theorem set_pseudocode_without_text_area:
  "responseTE self = None \<Longrightarrow> set_pseudocode self code = self"
  by (simp add: set_pseudocode_def)

theorem set_pseudocode_without_text_area_witness:
  "responseTE fresh_widget = None \<and> set_pseudocode fresh_widget ''x'' = fresh_widget"
proof -
  have n: "responseTE fresh_widget = None" by (simp add: fresh_widget_def)
  from set_pseudocode_without_text_area [OF n, of "''x''"] n show ?thesis by simp
qed

end
